theory Spec2Isabelle
  imports Main
begin

section \<open>The compatibility header \<open>Macaulay2/c/compat.h\<close>\<close>

text \<open>
  The header consists of three object declarations and of preprocessor directives. Its
  input is the build configuration: the macros that are defined when the header is
  reached (compiler predefined ones such as \<open>__STDC__\<close>, \<open>-D\<close> options, the
  \<open>HAVE_*\<close> symbols written by the configure step). Its output is what the rest of the
  translation unit sees: the declarations made, the macros defined and the headers
  requested, in the order of the text.

  Every directive is a function on the preprocessor state, and the header is the sequence
  of its directives. The text of the headers it requests is not part of this repository:
  an \<open>#include\<close> is recorded as a request, in order, and the macro table follows the
  definitions made by \<open>compat.h\<close> itself. The requested headers are thus taken to leave
  alone the macros that \<open>compat.h\<close> tests after them (\<open>NO_CONFIG\<close>, the \<open>HAVE_*\<close> names
  and \<open>__STDC__\<close>).
\<close>

subsection \<open>Declarations\<close>

datatype storage_class = SC_extern | SC_static | SC_none

datatype ctype = T_char | T_array ctype "nat option"

record obj_decl =
  d_storage :: storage_class
  d_type :: ctype
  d_name :: string
  d_init :: "string option"

text \<open>
  At file scope a declaration of an object is a definition when it has an initializer, and
  a tentative definition (storage is reserved unless another definition follows) when it
  has none and is not \<open>extern\<close>. Only \<open>extern\<close> without an initializer declares without
  defining.
\<close>

definition defines_object :: "obj_decl \<Rightarrow> bool" where
  "defines_object d = (d_init d \<noteq> None \<or> d_storage d \<noteq> SC_extern)"

text \<open>\<open>extern char name[];\<close>\<close>

definition extern_char_array :: "string \<Rightarrow> obj_decl" where
  "extern_char_array n =
     \<lparr>d_storage = SC_extern, d_type = T_array T_char None, d_name = n, d_init = None\<rparr>"

subsection \<open>Preprocessor state and directives\<close>

type_synonym macro_table = "string \<rightharpoonup> string"

datatype event =
    EDecl obj_decl
  | EDefine string string
  | EInclude string

record pp_state =
  macros :: macro_table
  trace :: "event list"
  diags :: "string list"

type_synonym directive = "pp_state \<Rightarrow> pp_state"

definition declare_obj :: "obj_decl \<Rightarrow> directive" where
  "declare_obj d s = s\<lparr>trace := trace s @ [EDecl d]\<rparr>"

text \<open>
  \<open>#define n b\<close>. The new replacement text takes effect; defining a macro again with a
  different replacement text is diagnosed, and the name is noted in \<open>diags\<close>.
\<close>

definition pp_define :: "string \<Rightarrow> string \<Rightarrow> directive" where
  "pp_define n b s =
     s\<lparr>macros := (macros s)(n \<mapsto> b),
       trace := trace s @ [EDefine n b],
       diags := (if macros s n = None \<or> macros s n = Some b then diags s
                 else diags s @ [n])\<rparr>"

definition pp_include :: "string \<Rightarrow> directive" where
  "pp_include h s = s\<lparr>trace := trace s @ [EInclude h]\<rparr>"

definition pp_defined :: "string \<Rightarrow> pp_state \<Rightarrow> bool" where
  "pp_defined n s = (macros s n \<noteq> None)"

definition pp_seq :: "directive list \<Rightarrow> directive" where
  "pp_seq ds s = fold (\<lambda>d t. d t) ds s"

definition pp_if_else :: "(pp_state \<Rightarrow> bool) \<Rightarrow> directive list \<Rightarrow> directive list \<Rightarrow> directive" where
  "pp_if_else c ds es s = (if c s then pp_seq ds s else pp_seq es s)"

definition pp_if :: "(pp_state \<Rightarrow> bool) \<Rightarrow> directive list \<Rightarrow> directive" where
  "pp_if c ds = pp_if_else c ds []"

definition pp_ifdef :: "string \<Rightarrow> directive list \<Rightarrow> directive" where
  "pp_ifdef n ds = pp_if_else (pp_defined n) ds []"

definition pp_ifndef :: "string \<Rightarrow> directive list \<Rightarrow> directive" where
  "pp_ifndef n ds = pp_if_else (pp_defined n) [] ds"

definition pp_ifdef_else :: "string \<Rightarrow> directive list \<Rightarrow> directive list \<Rightarrow> directive" where
  "pp_ifdef_else n ds es = pp_if_else (pp_defined n) ds es"

definition pp_ifndef_else :: "string \<Rightarrow> directive list \<Rightarrow> directive list \<Rightarrow> directive" where
  "pp_ifndef_else n ds es = pp_if_else (pp_defined n) es ds"

subsection \<open>The header\<close>

text \<open>
  The text of \<open>compat.h\<close>, directive by directive: the declarations of lines 4 to 6, the
  macros of lines 8 to 23, the request of line 25, and the conditional on \<open>NO_CONFIG\<close> of
  lines 27 to 82 with its two blocks of requests.
\<close>

definition compat_h :: directive where
  "compat_h = pp_seq [
     declare_obj (extern_char_array ''posfmt''),
     declare_obj (extern_char_array ''errfmt''),
     declare_obj (extern_char_array ''errfmtnc''),
     pp_ifndef ''TRUE'' [
       pp_define ''TRUE'' ''1''
     ],
     pp_ifndef ''FALSE'' [
       pp_define ''FALSE'' ''0''
     ],
     pp_define ''OKAY'' ''0'',
     pp_define ''ERROR'' ''(-1)'',
     pp_if (\<lambda>s. pp_defined ''__ppc__'' s \<and> pp_defined ''__MACH__'' s) [
       pp_define ''__DARWIN__'' ''1''
     ],
     pp_include ''gc/gc.h'',
     pp_ifndef_else ''NO_CONFIG'' [
       pp_ifdef ''HAVE_UNISTD_H'' [
         pp_include ''unistd.h''
       ],
       pp_ifdef ''HAVE_SYSTYPES_H'' [
         pp_include ''sys/types.h''
       ],
       pp_ifdef ''HAVE_TYPES_H'' [
         pp_include ''types.h''
       ],
       pp_ifdef ''HAVE_SYS_STAT_H'' [
         pp_include ''sys/stat.h''
       ],
       pp_ifdef ''HAVE_STDLIB_H'' [
         pp_include ''stdlib.h''
       ],
       pp_ifdef ''HAVE_STRING_H'' [
         pp_include ''string.h''
       ],
       pp_include ''ctype.h'',
       pp_ifdef ''HAVE_MEMORY_H'' [
         pp_include ''memory.h''
       ],
       pp_include ''stdio.h'',
       pp_include ''fcntl.h'',
       pp_ifdef_else ''__STDC__'' [
         pp_include ''stdarg.h''
       ] [
         pp_include ''varargs.h''
       ]
     ] [
       pp_include ''unistd.h'',
       pp_include ''sys/types.h'',
       pp_include ''sys/stat.h'',
       pp_include ''stdlib.h'',
       pp_include ''string.h'',
       pp_include ''memory.h'',
       pp_include ''ctype.h'',
       pp_include ''stdio.h'',
       pp_include ''fcntl.h'',
       pp_include ''stdarg.h''
     ]
   ]"

text \<open>Processing the header in a build configuration, from an empty trace.\<close>

definition process :: "macro_table \<Rightarrow> pp_state" where
  "process cfg = compat_h \<lparr>macros = cfg, trace = [], diags = []\<rparr>"

fun event_header :: "event \<Rightarrow> string list" where
  "event_header (EInclude h) = [h]"
| "event_header _ = []"

fun event_decl :: "event \<Rightarrow> obj_decl list" where
  "event_decl (EDecl d) = [d]"
| "event_decl _ = []"

fun event_macro :: "event \<Rightarrow> string list" where
  "event_macro (EDefine n b) = [n]"
| "event_macro _ = []"

text \<open>The headers requested, the objects declared and the macros defined, in order.\<close>

definition included :: "pp_state \<Rightarrow> string list" where
  "included s = concat (map event_header (trace s))"

definition declared :: "pp_state \<Rightarrow> obj_decl list" where
  "declared s = concat (map event_decl (trace s))"

definition defined_here :: "pp_state \<Rightarrow> string list" where
  "defined_here s = concat (map event_macro (trace s))"

subsection \<open>The value of a replacement text\<close>

text \<open>
  The macros of this header expand to integer constants: a decimal constant, possibly
  negated and parenthesized. \<open>cval\<close> gives the value of such a replacement text and
  \<open>None\<close> for every other text (also for octal constants and for \<open>--\<close>, which is one token).
\<close>

definition digit_val :: "char \<Rightarrow> nat option" where
  "digit_val c =
     (let n = (of_char c :: nat) in if 48 \<le> n \<and> n \<le> 57 then Some (n - 48) else None)"

fun dec_digits :: "nat \<Rightarrow> string \<Rightarrow> nat option" where
  "dec_digits acc [] = Some acc"
| "dec_digits acc (c # cs) =
     (case digit_val c of None \<Rightarrow> None | Some d \<Rightarrow> dec_digits (10 * acc + d) cs)"

definition dec_const :: "string \<Rightarrow> nat option" where
  "dec_const s =
     (if s = [] then None
      else if hd s = CHR ''0'' \<and> tl s \<noteq> [] then None
      else dec_digits 0 s)"

fun cval :: "string \<Rightarrow> int option" where
  "cval [] = None"
| "cval (c # cs) =
     (if c = CHR ''('' \<and> cs \<noteq> [] \<and> last cs = CHR '')'' then cval (butlast cs)
      else if c = CHR ''-'' \<and> cs \<noteq> [] \<and> hd cs \<noteq> CHR ''-'' then map_option uminus (cval cs)
      else map_option int (dec_const (c # cs)))"

definition macro_value :: "string \<Rightarrow> pp_state \<Rightarrow> int option" where
  "macro_value n s = (case macros s n of None \<Rightarrow> None | Some b \<Rightarrow> cval b)"

section \<open>How the directives act on an explicit state\<close>

text \<open>
  One equation for each shape of directive that occurs in the header. With them the header
  is run directive by directive on the state \<open>\<lparr>macros = M, trace = T, diags = D\<rparr>\<close>, and the
  conditions stay inside the fields: no case distinction is made before a claim needs one.
\<close>

lemma pp_seq_Nil: "pp_seq [] s = s"
  by (simp add: pp_seq_def)

lemma pp_seq_Cons: "pp_seq (d # ds) s = pp_seq ds (d s)"
  by (simp add: pp_seq_def)

lemma declare_obj_rec:
  "declare_obj d \<lparr>macros = M, trace = T, diags = D\<rparr> =
     \<lparr>macros = M, trace = T @ [EDecl d], diags = D\<rparr>"
  by (simp add: declare_obj_def)

lemma pp_include_rec:
  "pp_include h \<lparr>macros = M, trace = T, diags = D\<rparr> =
     \<lparr>macros = M, trace = T @ [EInclude h], diags = D\<rparr>"
  by (simp add: pp_include_def)

lemma pp_define_rec:
  "pp_define n b \<lparr>macros = M, trace = T, diags = D\<rparr> =
     \<lparr>macros = M(n \<mapsto> b), trace = T @ [EDefine n b],
      diags = D @ (if M n = None \<or> M n = Some b then [] else [n])\<rparr>"
  by (simp add: pp_define_def)

lemma pp_ifdef_include_rec:
  "pp_ifdef n [pp_include h] \<lparr>macros = M, trace = T, diags = D\<rparr> =
     \<lparr>macros = M, trace = T @ (if M n = None then [] else [EInclude h]), diags = D\<rparr>"
  by (simp add: pp_ifdef_def pp_if_else_def pp_defined_def pp_seq_Nil pp_seq_Cons
      pp_include_rec)

lemma pp_ifdef_else_include_rec:
  "pp_ifdef_else n [pp_include h] [pp_include k] \<lparr>macros = M, trace = T, diags = D\<rparr> =
     \<lparr>macros = M, trace = T @ (if M n = None then [EInclude k] else [EInclude h]),
      diags = D\<rparr>"
  by (simp add: pp_ifdef_else_def pp_if_else_def pp_defined_def pp_seq_Nil pp_seq_Cons
      pp_include_rec)

lemma pp_ifndef_define_rec:
  "pp_ifndef n [pp_define n b] \<lparr>macros = M, trace = T, diags = D\<rparr> =
     \<lparr>macros = M(n := Some (case M n of None \<Rightarrow> b | Some v \<Rightarrow> v)),
      trace = T @ (if M n = None then [EDefine n b] else []), diags = D\<rparr>"
  by (auto simp add: pp_ifndef_def pp_if_else_def pp_defined_def pp_seq_Nil pp_seq_Cons
      pp_define_rec fun_upd_idem)

lemma pp_if_define_rec:
  "pp_if c [pp_define n b] \<lparr>macros = M, trace = T, diags = D\<rparr> =
     (let on = c \<lparr>macros = M, trace = T, diags = D\<rparr> in
      \<lparr>macros = M(n := if on then Some b else M n),
       trace = T @ (if on then [EDefine n b] else []),
       diags = D @ (if on \<and> M n \<noteq> None \<and> M n \<noteq> Some b then [n] else [])\<rparr>)"
  by (auto simp add: pp_if_def pp_if_else_def Let_def pp_seq_Nil pp_seq_Cons pp_define_rec)

lemma pp_ifndef_else_rec:
  "pp_ifndef_else n ds es \<lparr>macros = M, trace = T, diags = D\<rparr> =
     (if M n = None then pp_seq ds \<lparr>macros = M, trace = T, diags = D\<rparr>
      else pp_seq es \<lparr>macros = M, trace = T, diags = D\<rparr>)"
  by (simp add: pp_ifndef_else_def pp_if_else_def pp_defined_def)

lemmas pp_steps = pp_seq_Nil pp_seq_Cons declare_obj_rec pp_include_rec pp_define_rec
  pp_ifdef_include_rec pp_ifdef_else_include_rec pp_ifndef_define_rec pp_if_define_rec
  pp_ifndef_else_rec

lemmas unfold_header = process_def compat_h_def pp_steps pp_defined_def Let_def

section \<open>The header in closed form\<close>

text \<open>
  The macro table after the header: \<open>TRUE\<close> and \<open>FALSE\<close> keep a replacement text they
  already have, \<open>OKAY\<close> and \<open>ERROR\<close> are set, \<open>__DARWIN__\<close> is set on the two conditions, and
  every other name is as the build configuration has it.
\<close>

lemma macros_process:
  "macros (process cfg) =
     cfg(''TRUE'' \<mapsto> (case cfg ''TRUE'' of None \<Rightarrow> ''1'' | Some v \<Rightarrow> v),
         ''FALSE'' \<mapsto> (case cfg ''FALSE'' of None \<Rightarrow> ''0'' | Some v \<Rightarrow> v),
         ''OKAY'' \<mapsto> ''0'',
         ''ERROR'' \<mapsto> ''(-1)'',
         ''__DARWIN__'' := (if cfg ''__ppc__'' \<noteq> None \<and> cfg ''__MACH__'' \<noteq> None
                            then Some ''1'' else cfg ''__DARWIN__''))"
  by (simp add: unfold_header if_distrib[of macros] split del: if_split cong: if_cong)

text \<open>The trace of the header: declarations, definitions and requests in text order.\<close>

lemma trace_process:
  "trace (process cfg) =
     [EDecl (extern_char_array ''posfmt''),
      EDecl (extern_char_array ''errfmt''),
      EDecl (extern_char_array ''errfmtnc'')] @
     (if cfg ''TRUE'' = None then [EDefine ''TRUE'' ''1''] else []) @
     (if cfg ''FALSE'' = None then [EDefine ''FALSE'' ''0''] else []) @
     [EDefine ''OKAY'' ''0'', EDefine ''ERROR'' ''(-1)''] @
     (if cfg ''__ppc__'' \<noteq> None \<and> cfg ''__MACH__'' \<noteq> None
      then [EDefine ''__DARWIN__'' ''1''] else []) @
     [EInclude ''gc/gc.h''] @
     (if cfg ''NO_CONFIG'' = None then
        (if cfg ''HAVE_UNISTD_H'' = None then [] else [EInclude ''unistd.h'']) @
        (if cfg ''HAVE_SYSTYPES_H'' = None then [] else [EInclude ''sys/types.h'']) @
        (if cfg ''HAVE_TYPES_H'' = None then [] else [EInclude ''types.h'']) @
        (if cfg ''HAVE_SYS_STAT_H'' = None then [] else [EInclude ''sys/stat.h'']) @
        (if cfg ''HAVE_STDLIB_H'' = None then [] else [EInclude ''stdlib.h'']) @
        (if cfg ''HAVE_STRING_H'' = None then [] else [EInclude ''string.h'']) @
        [EInclude ''ctype.h''] @
        (if cfg ''HAVE_MEMORY_H'' = None then [] else [EInclude ''memory.h'']) @
        [EInclude ''stdio.h'', EInclude ''fcntl.h''] @
        (if cfg ''__STDC__'' = None then [EInclude ''varargs.h''] else [EInclude ''stdarg.h''])
      else
        map EInclude [''unistd.h'', ''sys/types.h'', ''sys/stat.h'', ''stdlib.h'',
          ''string.h'', ''memory.h'', ''ctype.h'', ''stdio.h'', ''fcntl.h'', ''stdarg.h''])"
  by (cases "cfg ''NO_CONFIG''")
    (simp_all add: unfold_header split del: if_split cong: if_cong)

text \<open>
  A diagnostic arises only for \<open>OKAY\<close>, \<open>ERROR\<close> and \<open>__DARWIN__\<close>, and only when the build
  configuration already gives the name another replacement text.
\<close>

lemma diags_process:
  "diags (process cfg) =
     (if cfg ''OKAY'' = None \<or> cfg ''OKAY'' = Some ''0'' then [] else [''OKAY'']) @
     (if cfg ''ERROR'' = None \<or> cfg ''ERROR'' = Some ''(-1)'' then [] else [''ERROR'']) @
     (if cfg ''__ppc__'' \<noteq> None \<and> cfg ''__MACH__'' \<noteq> None \<and>
         cfg ''__DARWIN__'' \<noteq> None \<and> cfg ''__DARWIN__'' \<noteq> Some ''1''
      then [''__DARWIN__''] else [])"
  by (simp add: unfold_header if_distrib[of diags] split del: if_split cong: if_cong)

section \<open>Headers, declarations and definitions of the header\<close>

lemma included_config:
  assumes "cfg ''NO_CONFIG'' = None"
  shows "included (process cfg) =
     [''gc/gc.h''] @
     (if cfg ''HAVE_UNISTD_H'' = None then [] else [''unistd.h'']) @
     (if cfg ''HAVE_SYSTYPES_H'' = None then [] else [''sys/types.h'']) @
     (if cfg ''HAVE_TYPES_H'' = None then [] else [''types.h'']) @
     (if cfg ''HAVE_SYS_STAT_H'' = None then [] else [''sys/stat.h'']) @
     (if cfg ''HAVE_STDLIB_H'' = None then [] else [''stdlib.h'']) @
     (if cfg ''HAVE_STRING_H'' = None then [] else [''string.h'']) @
     [''ctype.h''] @
     (if cfg ''HAVE_MEMORY_H'' = None then [] else [''memory.h'']) @
     [''stdio.h'', ''fcntl.h''] @
     (if cfg ''__STDC__'' = None then [''varargs.h''] else [''stdarg.h''])"
  using assms
  by (simp add: included_def trace_process if_distrib[of "map event_header"]
      if_distrib[of concat] split del: if_split cong: if_cong)

lemma included_no_config:
  assumes "cfg ''NO_CONFIG'' \<noteq> None"
  shows "included (process cfg) =
     [''gc/gc.h'', ''unistd.h'', ''sys/types.h'', ''sys/stat.h'', ''stdlib.h'',
      ''string.h'', ''memory.h'', ''ctype.h'', ''stdio.h'', ''fcntl.h'', ''stdarg.h'']"
proof -
  from assms obtain v where "cfg ''NO_CONFIG'' = Some v"
    by auto
  then show ?thesis
    by (simp add: included_def trace_process)
qed

lemma declared_process:
  "declared (process cfg) =
     [extern_char_array ''posfmt'', extern_char_array ''errfmt'',
      extern_char_array ''errfmtnc'']"
  by (cases "cfg ''NO_CONFIG''")
    (simp_all add: declared_def trace_process if_distrib[of "map event_decl"]
      if_distrib[of concat] split del: if_split cong: if_cong)

lemma defined_here_process:
  "defined_here (process cfg) =
     (if cfg ''TRUE'' = None then [''TRUE''] else []) @
     (if cfg ''FALSE'' = None then [''FALSE''] else []) @
     [''OKAY'', ''ERROR''] @
     (if cfg ''__ppc__'' \<noteq> None \<and> cfg ''__MACH__'' \<noteq> None then [''__DARWIN__''] else [])"
  by (cases "cfg ''NO_CONFIG''")
    (simp_all add: defined_here_def trace_process if_distrib[of "map event_macro"]
      if_distrib[of concat] split del: if_split cong: if_cong)

lemma in_set_if_nil: "(x \<in> set (if c then [] else [y])) = (\<not> c \<and> x = y)"
  by simp

lemma in_set_if_sing: "(x \<in> set (if c then [y] else [z])) = (if c then x = y else x = z)"
  by simp

lemma list_all_if:
  "list_all P (if c then xs else ys) = (if c then list_all P xs else list_all P ys)"
  by simp

section \<open>The claims\<close>

subsection \<open>Headers guarded by feature-detection macros\<close>

text \<open>
  Claim C1. In every build configuration that does not define \<open>NO_CONFIG\<close>, each of
  \<open>unistd.h\<close>, \<open>sys/stat.h\<close>, \<open>stdlib.h\<close>, \<open>string.h\<close> and \<open>memory.h\<close> is included exactly
  when its macro \<open>HAVE_UNISTD_H\<close>, \<open>HAVE_SYS_STAT_H\<close>, \<open>HAVE_STDLIB_H\<close>, \<open>HAVE_STRING_H\<close>,
  \<open>HAVE_MEMORY_H\<close> is defined.
\<close>

theorem configured_headers_follow_have_macros:
  assumes "''NO_CONFIG'' \<notin> dom cfg"
  shows "(''unistd.h'' \<in> set (included (process cfg))) = (''HAVE_UNISTD_H'' \<in> dom cfg) \<and>
         (''sys/stat.h'' \<in> set (included (process cfg))) = (''HAVE_SYS_STAT_H'' \<in> dom cfg) \<and>
         (''stdlib.h'' \<in> set (included (process cfg))) = (''HAVE_STDLIB_H'' \<in> dom cfg) \<and>
         (''string.h'' \<in> set (included (process cfg))) = (''HAVE_STRING_H'' \<in> dom cfg) \<and>
         (''memory.h'' \<in> set (included (process cfg))) = (''HAVE_MEMORY_H'' \<in> dom cfg)"
  using assms included_config [of cfg]
  by (simp add: in_set_if_nil in_set_if_sing domIff split del: if_split cong: if_cong)

theorem configured_headers_follow_have_macros_witness:
  "''NO_CONFIG'' \<notin> dom [''HAVE_UNISTD_H'' \<mapsto> ''1'', ''HAVE_STRING_H'' \<mapsto> ''1''] \<and>
   ''unistd.h'' \<in>
     set (included (process [''HAVE_UNISTD_H'' \<mapsto> ''1'', ''HAVE_STRING_H'' \<mapsto> ''1''])) \<and>
   ''sys/stat.h'' \<notin>
     set (included (process [''HAVE_UNISTD_H'' \<mapsto> ''1'', ''HAVE_STRING_H'' \<mapsto> ''1''])) \<and>
   ''stdlib.h'' \<notin>
     set (included (process [''HAVE_UNISTD_H'' \<mapsto> ''1'', ''HAVE_STRING_H'' \<mapsto> ''1''])) \<and>
   ''string.h'' \<in>
     set (included (process [''HAVE_UNISTD_H'' \<mapsto> ''1'', ''HAVE_STRING_H'' \<mapsto> ''1''])) \<and>
   ''memory.h'' \<notin>
     set (included (process [''HAVE_UNISTD_H'' \<mapsto> ''1'', ''HAVE_STRING_H'' \<mapsto> ''1'']))"
  using configured_headers_follow_have_macros
    [of "[''HAVE_UNISTD_H'' \<mapsto> ''1'', ''HAVE_STRING_H'' \<mapsto> ''1'']"]
  by simp

text \<open>
  Claim C2. In every build configuration that does not define \<open>NO_CONFIG\<close>, \<open>sys/types.h\<close>
  is included exactly when \<open>HAVE_SYS_TYPES_H\<close> is defined.

  The header does not do this. Its guards for the other headers carry the names the
  configure step writes (\<open>HAVE_SYS_STAT_H\<close> for \<open>sys/stat.h\<close>, with the slash as an
  underscore), but the guard of \<open>sys/types.h\<close> is spelt \<open>HAVE_SYSTYPES_H\<close>. In the
  configuration that defines \<open>HAVE_SYS_TYPES_H\<close> and nothing else the header is not
  included.
\<close>

theorem sys_types_h_not_guarded_by_have_sys_types_h:
  "''NO_CONFIG'' \<notin> dom [''HAVE_SYS_TYPES_H'' \<mapsto> ''1''] \<and>
   ''HAVE_SYS_TYPES_H'' \<in> dom [''HAVE_SYS_TYPES_H'' \<mapsto> ''1''] \<and>
   ''sys/types.h'' \<notin> set (included (process [''HAVE_SYS_TYPES_H'' \<mapsto> ''1'']))"
  using included_config [of "[''HAVE_SYS_TYPES_H'' \<mapsto> ''1'']"]
  by simp

text \<open>The name the text of the header tests for \<open>sys/types.h\<close>.\<close>

lemma sys_types_h_guard_in_the_text:
  assumes "''NO_CONFIG'' \<notin> dom cfg"
  shows "(''sys/types.h'' \<in> set (included (process cfg))) = (''HAVE_SYSTYPES_H'' \<in> dom cfg)"
  using assms included_config [of cfg]
  by (simp add: in_set_if_nil in_set_if_sing domIff split del: if_split cong: if_cong)

text \<open>
  Claim C8. In every build configuration that defines \<open>NO_CONFIG\<close> the \<open>HAVE_*\<close> macros play
  no part: after \<open>gc/gc.h\<close> the header includes \<open>unistd.h\<close>, \<open>sys/types.h\<close>, \<open>sys/stat.h\<close>,
  \<open>stdlib.h\<close>, \<open>string.h\<close>, \<open>memory.h\<close>, \<open>ctype.h\<close>, \<open>stdio.h\<close>, \<open>fcntl.h\<close> and \<open>stdarg.h\<close>,
  whatever else the configuration defines.
\<close>

theorem no_config_fixed_headers:
  assumes "''NO_CONFIG'' \<in> dom cfg"
  shows "included (process cfg) =
     [''gc/gc.h'', ''unistd.h'', ''sys/types.h'', ''sys/stat.h'', ''stdlib.h'',
      ''string.h'', ''memory.h'', ''ctype.h'', ''stdio.h'', ''fcntl.h'', ''stdarg.h'']"
  using assms included_no_config [of cfg]
  by (simp add: domIff)

theorem no_config_fixed_headers_witness:
  "''NO_CONFIG'' \<in> dom [''NO_CONFIG'' \<mapsto> ''1''] \<and>
   ''HAVE_UNISTD_H'' \<notin> dom [''NO_CONFIG'' \<mapsto> ''1''] \<and>
   included (process [''NO_CONFIG'' \<mapsto> ''1'']) =
     [''gc/gc.h'', ''unistd.h'', ''sys/types.h'', ''sys/stat.h'', ''stdlib.h'',
      ''string.h'', ''memory.h'', ''ctype.h'', ''stdio.h'', ''fcntl.h'', ''stdarg.h'']"
  using no_config_fixed_headers [of "[''NO_CONFIG'' \<mapsto> ''1'']"]
  by simp

subsection \<open>The collector's header\<close>

text \<open>
  Claim C3. The inclusion of \<open>gc/gc.h\<close> is conditional: it depends on a feature-detection
  macro of the build configuration.

  It does not. The directive stands outside every conditional, so the header is requested
  also when the configuration defines no macro at all, and when it defines \<open>NO_CONFIG\<close>.
\<close>

theorem gc_h_included_with_no_macro_defined:
  "dom (Map.empty :: macro_table) = {} \<and>
   ''gc/gc.h'' \<in> set (included (process Map.empty)) \<and>
   ''gc/gc.h'' \<in> set (included (process [''NO_CONFIG'' \<mapsto> ''1'']))"
  using included_config [of Map.empty]
    included_no_config [of "[''NO_CONFIG'' \<mapsto> ''1'']"]
  by simp

text \<open>
  Claim C3, amended. In every build configuration \<open>gc/gc.h\<close> is included: it is the first
  header the text requests, and it is requested once.
\<close>

theorem gc_h_first_and_once:
  "\<exists>rest. included (process cfg) = ''gc/gc.h'' # rest \<and> ''gc/gc.h'' \<notin> set rest"
proof (cases "cfg ''NO_CONFIG''")
  case None
  then show ?thesis
    using included_config [of cfg]
    by (simp add: in_set_if_nil in_set_if_sing split del: if_split cong: if_cong)
next
  case (Some v)
  then show ?thesis
    using included_no_config [of cfg] by simp
qed

theorem gc_h_first_and_once_witness:
  "\<exists>rest. included (process [''HAVE_STDLIB_H'' \<mapsto> ''1'']) = ''gc/gc.h'' # rest \<and>
     ''gc/gc.h'' \<notin> set rest"
  using gc_h_first_and_once [of "[''HAVE_STDLIB_H'' \<mapsto> ''1'']"]
  by simp

subsection \<open>The macros\<close>

text \<open>
  Claim C4. In every build configuration \<open>OKAY\<close> is defined with value 0 and \<open>ERROR\<close> with
  value -1, and the two values differ.
\<close>

theorem okay_error_values:
  "macros (process cfg) ''OKAY'' = Some ''0'' \<and>
   macros (process cfg) ''ERROR'' = Some ''(-1)'' \<and>
   macro_value ''OKAY'' (process cfg) = Some 0 \<and>
   macro_value ''ERROR'' (process cfg) = Some (- 1) \<and>
   macro_value ''OKAY'' (process cfg) \<noteq> macro_value ''ERROR'' (process cfg)"
  by (simp add: macro_value_def macros_process dec_const_def digit_val_def)

theorem okay_error_values_witness:
  "macro_value ''OKAY'' (process [''OKAY'' \<mapsto> ''1'', ''ERROR'' \<mapsto> ''0'']) = Some 0 \<and>
   macro_value ''ERROR'' (process [''OKAY'' \<mapsto> ''1'', ''ERROR'' \<mapsto> ''0'']) = Some (- 1)"
  using okay_error_values [of "[''OKAY'' \<mapsto> ''1'', ''ERROR'' \<mapsto> ''0'']"]
  by simp

text \<open>
  Claim C5. The header defines \<open>__DARWIN__\<close>, as 1, exactly when the build configuration
  defines both \<open>__ppc__\<close> and \<open>__MACH__\<close>. In a configuration that lacks one of the two the
  header leaves \<open>__DARWIN__\<close> as the configuration has it: undefined, unless the
  configuration itself defines it.
\<close>

theorem darwin_defined_iff_ppc_and_mach:
  "(''__DARWIN__'' \<in> set (defined_here (process cfg))) =
     (''__ppc__'' \<in> dom cfg \<and> ''__MACH__'' \<in> dom cfg) \<and>
   macros (process cfg) ''__DARWIN__'' =
     (if ''__ppc__'' \<in> dom cfg \<and> ''__MACH__'' \<in> dom cfg then Some ''1''
      else cfg ''__DARWIN__'') \<and>
   macro_value ''__DARWIN__'' (process cfg) =
     (if ''__ppc__'' \<in> dom cfg \<and> ''__MACH__'' \<in> dom cfg then Some 1
      else case cfg ''__DARWIN__'' of None \<Rightarrow> None | Some b \<Rightarrow> cval b)"
  by (simp add: defined_here_process macros_process macro_value_def domIff dec_const_def
      digit_val_def)

theorem darwin_defined_iff_ppc_and_mach_witness:
  "''__DARWIN__'' \<in>
     set (defined_here (process [''__ppc__'' \<mapsto> ''1'', ''__MACH__'' \<mapsto> ''1''])) \<and>
   macros (process [''__ppc__'' \<mapsto> ''1'', ''__MACH__'' \<mapsto> ''1'']) ''__DARWIN__'' = Some ''1'' \<and>
   macro_value ''__DARWIN__'' (process [''__ppc__'' \<mapsto> ''1'', ''__MACH__'' \<mapsto> ''1'']) = Some 1 \<and>
   ''__DARWIN__'' \<notin> set (defined_here (process [''__MACH__'' \<mapsto> ''1''])) \<and>
   macros (process [''__MACH__'' \<mapsto> ''1'']) ''__DARWIN__'' = None"
  using darwin_defined_iff_ppc_and_mach [of "[''__ppc__'' \<mapsto> ''1'', ''__MACH__'' \<mapsto> ''1'']"]
    darwin_defined_iff_ppc_and_mach [of "[''__MACH__'' \<mapsto> ''1'']"]
  by simp

text \<open>
  Claim C9. The header defines \<open>TRUE\<close> (as 1) and \<open>FALSE\<close> (as 0) only when the build
  configuration does not define them: a definition the configuration has is left as it is.
  \<open>OKAY\<close> and \<open>ERROR\<close> are defined in every configuration.
\<close>

theorem true_false_only_when_undefined:
  "(''TRUE'' \<in> set (defined_here (process cfg))) = (''TRUE'' \<notin> dom cfg) \<and>
   (''FALSE'' \<in> set (defined_here (process cfg))) = (''FALSE'' \<notin> dom cfg) \<and>
   macros (process cfg) ''TRUE'' = (if ''TRUE'' \<in> dom cfg then cfg ''TRUE'' else Some ''1'') \<and>
   macros (process cfg) ''FALSE'' = (if ''FALSE'' \<in> dom cfg then cfg ''FALSE'' else Some ''0'') \<and>
   ''OKAY'' \<in> set (defined_here (process cfg)) \<and>
   ''ERROR'' \<in> set (defined_here (process cfg)) \<and>
   macros (process cfg) ''OKAY'' = Some ''0'' \<and>
   macros (process cfg) ''ERROR'' = Some ''(-1)''"
  by (auto simp add: defined_here_process macros_process domIff)

theorem true_false_only_when_undefined_witness:
  "''TRUE'' \<notin> set (defined_here (process [''TRUE'' \<mapsto> ''(!0)'', ''OKAY'' \<mapsto> ''7''])) \<and>
   ''FALSE'' \<in> set (defined_here (process [''TRUE'' \<mapsto> ''(!0)'', ''OKAY'' \<mapsto> ''7''])) \<and>
   macros (process [''TRUE'' \<mapsto> ''(!0)'', ''OKAY'' \<mapsto> ''7'']) ''TRUE'' = Some ''(!0)'' \<and>
   macros (process [''TRUE'' \<mapsto> ''(!0)'', ''OKAY'' \<mapsto> ''7'']) ''FALSE'' = Some ''0'' \<and>
   ''OKAY'' \<in> set (defined_here (process [''TRUE'' \<mapsto> ''(!0)'', ''OKAY'' \<mapsto> ''7''])) \<and>
   macros (process [''TRUE'' \<mapsto> ''(!0)'', ''OKAY'' \<mapsto> ''7'']) ''OKAY'' = Some ''0''"
  using true_false_only_when_undefined [of "[''TRUE'' \<mapsto> ''(!0)'', ''OKAY'' \<mapsto> ''7'']"]
  by simp

text \<open>
  Claim C10. In every build configuration in which the header supplies \<open>TRUE\<close> and \<open>FALSE\<close>
  (the configuration defines neither), \<open>OKAY\<close> has the value of \<open>FALSE\<close>, both 0, and
  \<open>ERROR\<close>, -1, differs from \<open>TRUE\<close>, 1, and from \<open>FALSE\<close>: the status of success is the
  boolean falsehood, not the boolean truth.
\<close>

theorem status_and_boolean_polarity:
  assumes "''TRUE'' \<notin> dom cfg" and "''FALSE'' \<notin> dom cfg"
  shows "macro_value ''TRUE'' (process cfg) = Some 1 \<and>
         macro_value ''FALSE'' (process cfg) = Some 0 \<and>
         macro_value ''OKAY'' (process cfg) = Some 0 \<and>
         macro_value ''ERROR'' (process cfg) = Some (- 1) \<and>
         macro_value ''OKAY'' (process cfg) = macro_value ''FALSE'' (process cfg) \<and>
         macro_value ''OKAY'' (process cfg) \<noteq> macro_value ''TRUE'' (process cfg) \<and>
         macro_value ''ERROR'' (process cfg) \<noteq> macro_value ''TRUE'' (process cfg) \<and>
         macro_value ''ERROR'' (process cfg) \<noteq> macro_value ''FALSE'' (process cfg)"
  using assms
  by (simp add: macro_value_def macros_process domIff dec_const_def digit_val_def)

theorem status_and_boolean_polarity_witness:
  "''TRUE'' \<notin> dom [''HAVE_UNISTD_H'' \<mapsto> ''1''] \<and>
   ''FALSE'' \<notin> dom [''HAVE_UNISTD_H'' \<mapsto> ''1''] \<and>
   macro_value ''OKAY'' (process [''HAVE_UNISTD_H'' \<mapsto> ''1'']) =
     macro_value ''FALSE'' (process [''HAVE_UNISTD_H'' \<mapsto> ''1'']) \<and>
   macro_value ''TRUE'' (process [''HAVE_UNISTD_H'' \<mapsto> ''1'']) = Some 1 \<and>
   macro_value ''ERROR'' (process [''HAVE_UNISTD_H'' \<mapsto> ''1'']) = Some (- 1)"
  using status_and_boolean_polarity [of "[''HAVE_UNISTD_H'' \<mapsto> ''1'']"]
  by simp

subsection \<open>The declarations and the whole effect\<close>

text \<open>
  Claim C7. The header declares \<open>posfmt\<close>, \<open>errfmt\<close> and \<open>errfmtnc\<close> as external arrays of
  characters and only declares them: in every build configuration none of the three has
  an initializer, and none is defined or given storage by the header.
\<close>

theorem format_strings_declared_not_defined:
  "declared (process cfg) =
     [extern_char_array ''posfmt'', extern_char_array ''errfmt'',
      extern_char_array ''errfmtnc''] \<and>
   list_all (\<lambda>d. d_storage d = SC_extern \<and> d_type d = T_array T_char None \<and>
                 d_init d = None \<and> \<not> defines_object d)
     (declared (process cfg))"
  by (simp add: declared_process extern_char_array_def defines_object_def)

theorem format_strings_declared_not_defined_witness:
  "map d_name (declared (process [''NO_CONFIG'' \<mapsto> ''1''])) =
     [''posfmt'', ''errfmt'', ''errfmtnc''] \<and>
   list_all (\<lambda>d. d_storage d = SC_extern \<and> d_type d = T_array T_char None \<and>
                 d_init d = None \<and> \<not> defines_object d)
     (declared (process [''NO_CONFIG'' \<mapsto> ''1'']))"
  using format_strings_declared_not_defined [of "[''NO_CONFIG'' \<mapsto> ''1'']"]
  by (simp add: extern_char_array_def defines_object_def)

text \<open>
  Claim C6. In every build configuration the effect of the header is made of the
  definitions of \<open>TRUE\<close>, \<open>FALSE\<close>, \<open>OKAY\<close> and \<open>ERROR\<close>, of the conditional definition of
  \<open>__DARWIN__\<close>, and of headers included under a feature-detection macro; there is no
  header included unconditionally and no declaration of an object.

  This fails in the configuration that defines no macro: no guard holds there, and the
  header still declares three objects and includes five headers.
\<close>

theorem effect_with_no_macro_defined:
  "trace (process Map.empty) =
     [EDecl (extern_char_array ''posfmt''),
      EDecl (extern_char_array ''errfmt''),
      EDecl (extern_char_array ''errfmtnc''),
      EDefine ''TRUE'' ''1'', EDefine ''FALSE'' ''0'',
      EDefine ''OKAY'' ''0'', EDefine ''ERROR'' ''(-1)'',
      EInclude ''gc/gc.h'', EInclude ''ctype.h'', EInclude ''stdio.h'',
      EInclude ''fcntl.h'', EInclude ''varargs.h'']"
  by (simp add: trace_process)

text \<open>
  Claim C6, amended. In every build configuration the effect of the header is made of the
  declarations of the three external arrays \<open>posfmt\<close>, \<open>errfmt\<close> and \<open>errfmtnc\<close>, of the
  definitions of \<open>TRUE\<close>, \<open>FALSE\<close>, \<open>OKAY\<close>, \<open>ERROR\<close> and \<open>__DARWIN__\<close>, and of included
  headers, of which \<open>gc/gc.h\<close>, \<open>ctype.h\<close>, \<open>stdio.h\<close> and \<open>fcntl.h\<close> are included in every
  configuration; there is nothing else, and the three declarations are the only ones.
\<close>

theorem header_effect_inventory:
  "set (trace (process cfg)) \<subseteq>
     EDecl ` {extern_char_array ''posfmt'', extern_char_array ''errfmt'',
              extern_char_array ''errfmtnc''} \<union>
     {EDefine ''TRUE'' ''1'', EDefine ''FALSE'' ''0'', EDefine ''OKAY'' ''0'',
      EDefine ''ERROR'' ''(-1)'', EDefine ''__DARWIN__'' ''1''} \<union>
     EInclude ` {''gc/gc.h'', ''unistd.h'', ''sys/types.h'', ''types.h'', ''sys/stat.h'',
                 ''stdlib.h'', ''string.h'', ''ctype.h'', ''memory.h'', ''stdio.h'',
                 ''fcntl.h'', ''stdarg.h'', ''varargs.h''} \<and>
   declared (process cfg) =
     [extern_char_array ''posfmt'', extern_char_array ''errfmt'',
      extern_char_array ''errfmtnc''] \<and>
   {''gc/gc.h'', ''ctype.h'', ''stdio.h'', ''fcntl.h''} \<subseteq> set (included (process cfg))"
proof (intro conjI)
  have "list_all
     (\<lambda>e. e \<in> EDecl ` {extern_char_array ''posfmt'', extern_char_array ''errfmt'',
              extern_char_array ''errfmtnc''} \<union>
     {EDefine ''TRUE'' ''1'', EDefine ''FALSE'' ''0'', EDefine ''OKAY'' ''0'',
      EDefine ''ERROR'' ''(-1)'', EDefine ''__DARWIN__'' ''1''} \<union>
     EInclude ` {''gc/gc.h'', ''unistd.h'', ''sys/types.h'', ''types.h'', ''sys/stat.h'',
                 ''stdlib.h'', ''string.h'', ''ctype.h'', ''memory.h'', ''stdio.h'',
                 ''fcntl.h'', ''stdarg.h'', ''varargs.h''})
     (trace (process cfg))"
    by (simp add: trace_process list_all_if split del: if_split cong: if_cong)
  then show "set (trace (process cfg)) \<subseteq>
     EDecl ` {extern_char_array ''posfmt'', extern_char_array ''errfmt'',
              extern_char_array ''errfmtnc''} \<union>
     {EDefine ''TRUE'' ''1'', EDefine ''FALSE'' ''0'', EDefine ''OKAY'' ''0'',
      EDefine ''ERROR'' ''(-1)'', EDefine ''__DARWIN__'' ''1''} \<union>
     EInclude ` {''gc/gc.h'', ''unistd.h'', ''sys/types.h'', ''types.h'', ''sys/stat.h'',
                 ''stdlib.h'', ''string.h'', ''ctype.h'', ''memory.h'', ''stdio.h'',
                 ''fcntl.h'', ''stdarg.h'', ''varargs.h''}"
    by (simp only: list_all_iff subset_iff Ball_def)
  show "declared (process cfg) =
     [extern_char_array ''posfmt'', extern_char_array ''errfmt'',
      extern_char_array ''errfmtnc'']"
    by (rule declared_process)
  show "{''gc/gc.h'', ''ctype.h'', ''stdio.h'', ''fcntl.h''} \<subseteq> set (included (process cfg))"
  proof (cases "cfg ''NO_CONFIG''")
    case None
    then show ?thesis
      using included_config [of cfg] by simp
  next
    case (Some v)
    then show ?thesis
      using included_no_config [of cfg] by simp
  qed
qed

theorem header_effect_inventory_witness:
  "declared (process [''HAVE_MEMORY_H'' \<mapsto> ''1'']) =
     [extern_char_array ''posfmt'', extern_char_array ''errfmt'',
      extern_char_array ''errfmtnc''] \<and>
   ''gc/gc.h'' \<in> set (included (process [''HAVE_MEMORY_H'' \<mapsto> ''1''])) \<and>
   ''ctype.h'' \<in> set (included (process [''HAVE_MEMORY_H'' \<mapsto> ''1''])) \<and>
   ''stdio.h'' \<in> set (included (process [''HAVE_MEMORY_H'' \<mapsto> ''1''])) \<and>
   ''fcntl.h'' \<in> set (included (process [''HAVE_MEMORY_H'' \<mapsto> ''1'']))"
  using header_effect_inventory [of "[''HAVE_MEMORY_H'' \<mapsto> ''1'']"]
  by simp

end
